theory Spec2Isabelle
  imports Complex_Main "HOL-Library.Sublist"
begin

section \<open>MultiStepTranslate: a three-step translation pipeline\<close>

text \<open>
  A shallow embedding of \<^verbatim>\<open>MultiStepTranslate.py\<close>: the completion client
  \<^verbatim>\<open>make_api_call\<close>, the orchestrator \<^verbatim>\<open>translate_text\<close> and the driver
  \<^verbatim>\<open>main\<close>. The completion service, the file system and the standard output are
  the explicit state (\<open>world\<close>) that the three functions thread through; every
  exception is a value of \<open>py_error\<close>.
\<close>

subsection \<open>Python strings\<close>

text \<open>
  A Python \<^verbatim>\<open>str\<close> is a sequence of Unicode code points; a code point is a natural
  number here. \<open>lit\<close> reads an ASCII literal of the source.
\<close>

type_synonym py_str = "nat list"

definition lit :: "string \<Rightarrow> py_str" where
  "lit s = map of_char s"

text \<open>
  \<^verbatim>\<open>str.isspace\<close> on one code point: the characters that \<^verbatim>\<open>str.strip()\<close>
  removes when called without argument (U+0009..U+000D, U+001C..U+0020, U+0085, U+00A0,
  U+1680, U+2000..U+200A, U+2028, U+2029, U+202F, U+205F, U+3000).
\<close>

definition isspace :: "nat \<Rightarrow> bool" where
  "isspace c =
     ((9 \<le> c \<and> c \<le> 13) \<or> (28 \<le> c \<and> c \<le> 32) \<or> c = 133 \<or> c = 160 \<or> c = 5760
      \<or> (8192 \<le> c \<and> c \<le> 8202) \<or> c = 8232 \<or> c = 8233 \<or> c = 8239 \<or> c = 8287
      \<or> c = 12288)"

definition py_lstrip :: "py_str \<Rightarrow> py_str" where
  "py_lstrip s = dropWhile isspace s"

definition py_rstrip :: "py_str \<Rightarrow> py_str" where
  "py_rstrip s = rev (dropWhile isspace (rev s))"

text \<open>\<^verbatim>\<open>s.strip()\<close>\<close>

definition py_strip :: "py_str \<Rightarrow> py_str" where
  "py_strip s = py_rstrip (py_lstrip s)"

text \<open>\<^verbatim>\<open>sub in s\<close> on strings: \<open>sub\<close> occurs in \<open>s\<close> as a contiguous block.\<close>

fun py_in :: "py_str \<Rightarrow> py_str \<Rightarrow> bool" where
  "py_in sub [] = (sub = [])"
| "py_in sub (c # cs) = (prefix sub (c # cs) \<or> py_in sub cs)"

subsection \<open>Exceptions\<close>

text \<open>
  The exceptions of \<^verbatim>\<open>requests.exceptions.RequestException\<close> that the client
  catches: a failure of \<^verbatim>\<open>requests.post\<close> itself (with its text), the
  \<^verbatim>\<open>HTTPError\<close> of \<^verbatim>\<open>raise_for_status\<close> (with the status) and the
  \<^verbatim>\<open>JSONDecodeError\<close> of \<^verbatim>\<open>response.json()\<close> (a \<^verbatim>\<open>RequestException\<close>
  since requests 2.27).
\<close>

datatype request_exception =
    TransportError py_str
  | HTTPError nat
  | JSONDecodeError

text \<open>
  \<open>RuntimeError m c\<close> is a \<^verbatim>\<open>RuntimeError\<close> whose message is \<open>m\<close>, followed by
  the text of \<open>c\<close> when the error was raised \<^verbatim>\<open>from\<close> a request exception \<open>c\<close>.
  \<open>ValueError m\<close> carries its whole message. \<open>UnicodeDecodeError\<close> and
  \<open>UnicodeEncodeError\<close> are subclasses of \<^verbatim>\<open>ValueError\<close>.
  \<open>FileNotFoundError\<close>, \<open>NotADirectoryError\<close>, \<open>IsADirectoryError\<close> and
  \<open>PermissionError\<close> are subclasses of \<^verbatim>\<open>OSError\<close>; \<open>OSError\<close> stands for
  an \<^verbatim>\<open>OSError\<close> that is none of these four. The remaining ones are raised by the
  interpreter on a JSON value of the wrong shape.
\<close>

datatype py_error =
    RuntimeError py_str "request_exception option"
  | ValueError py_str
  | UnicodeDecodeError
  | UnicodeEncodeError
  | FileNotFoundError
  | NotADirectoryError
  | IsADirectoryError
  | PermissionError
  | OSError
  | IndexError
  | KeyError
  | TypeError
  | AttributeError

subsection \<open>JSON values, requests and responses\<close>

text \<open>
  The value of \<^verbatim>\<open>response.json()\<close>. An object is the list of its members; a key is
  looked up with \<open>map_of\<close>.
\<close>

datatype json =
    JNull
  | JBool bool
  | JInt int
  | JFloat real
  | JStr py_str
  | JArr "json list"
  | JObj "(py_str \<times> json) list"

text \<open>\<^verbatim>\<open>x.get(key, default)\<close>: only a dict has the method.\<close>

fun py_get :: "json \<Rightarrow> py_str \<Rightarrow> json \<Rightarrow> py_error + json" where
  "py_get (JObj kvs) k d = Inr (case map_of kvs k of Some v \<Rightarrow> v | None \<Rightarrow> d)"
| "py_get _ k d = Inl AttributeError"

text \<open>
  \<^verbatim>\<open>x[0]\<close>: the first element of a list or the first character of a string
  (\<^verbatim>\<open>IndexError\<close> when empty), \<^verbatim>\<open>KeyError\<close> on a dict (its keys are strings),
  \<^verbatim>\<open>TypeError\<close> on a value that cannot be subscripted.
\<close>

fun py_index0 :: "json \<Rightarrow> py_error + json" where
  "py_index0 (JArr []) = Inl IndexError"
| "py_index0 (JArr (x # xs)) = Inr x"
| "py_index0 (JStr []) = Inl IndexError"
| "py_index0 (JStr (c # cs)) = Inr (JStr [c])"
| "py_index0 (JObj kvs) = Inl KeyError"
| "py_index0 _ = Inl TypeError"

text \<open>\<^verbatim>\<open>x.strip()\<close>: only a string has the method.\<close>

fun py_strip_value :: "json \<Rightarrow> py_error + py_str" where
  "py_strip_value (JStr s) = Inr (py_strip s)"
| "py_strip_value _ = Inl AttributeError"

record payload =
  model :: py_str
  prompt :: py_str
  max_tokens :: int
  temperature :: real

record request =
  url :: py_str
  headers :: "(py_str \<times> py_str) list"
  json_payload :: payload

text \<open>
  A response as the client reads it: the status and the parsed body (\<open>None\<close> when the
  body is not JSON).
\<close>

record response =
  status_code :: nat
  json_body :: "json option"

datatype http_outcome =
    PostRaises py_str
  | Response response

subsection \<open>The world\<close>

text \<open>
  What \<^verbatim>\<open>open\<close> finds for a path string.
  \<^item> \<open>Absent\<close>: no such file, in a directory where it can be created.
  \<^item> \<open>NoDirectory\<close>: a directory of the path does not exist.
  \<^item> \<open>NotADirectory\<close>: the path goes through something that is not a directory, as
    \<^verbatim>\<open>in.txt/x\<close> does when \<^verbatim>\<open>in.txt\<close> is a regular file.
  \<^item> \<open>Directory\<close>: the path is a directory.
  \<^item> \<open>Regular r wr d\<close>: a regular file with its read permission, its write permission
    and its data: text (as Python's text layer reads and writes it) or bytes that are
    not UTF-8.
  \<^item> \<open>NulInName\<close>: the string has a NUL character, which \<^verbatim>\<open>open\<close> refuses before
    it asks the operating system.
  \<^item> \<open>Unusable\<close>: the operating system refuses the path for another reason (a name
    that is too long, a loop of symbolic links, an input/output error).
\<close>

datatype file_data =
    Utf8 py_str
  | NotUtf8

datatype entry =
    Absent
  | NoDirectory
  | NotADirectory
  | Directory
  | Regular bool bool file_data
  | NulInName
  | Unusable

text \<open>A line of the standard output: a fixed prefix followed by the text of an exception.\<close>

datatype output_line = Diagnostic py_str py_error

text \<open>
  \<open>api_key\<close> is the environment variable \<^verbatim>\<open>MY_API_KEY\<close>, \<open>service\<close> the state of
  the completion service, \<open>sent\<close> the requests posted so far, oldest first.
\<close>

record 's world =
  api_key :: "py_str option"
  service :: 's
  sent :: "request list"
  files :: "py_str \<Rightarrow> entry"
  stdout :: "output_line list"

text \<open>The completion service answers a request and moves to its next state.\<close>

type_synonym 's server = "'s \<Rightarrow> request \<Rightarrow> http_outcome \<times> 's"

subsection \<open>Configuration\<close>

definition API_ENDPOINT :: py_str where
  "API_ENDPOINT = lit ''http://localhost:5000/v1/completions''"

definition DEFAULT_MODEL :: py_str where
  "DEFAULT_MODEL = lit ''text-davinci-003''"

text \<open>The float \<^verbatim>\<open>0.7\<close>, as the number it denotes.\<close>

definition DEFAULT_TEMPERATURE :: real where
  "DEFAULT_TEMPERATURE = 0.7"

text \<open>The header map; \<^verbatim>\<open>if API_KEY:\<close> is false for an unset and for an empty key.\<close>

definition HEADERS :: "py_str option \<Rightarrow> (py_str \<times> py_str) list" where
  "HEADERS key =
     (lit ''Content-Type'', lit ''application/json'') #
     (case key of
        None \<Rightarrow> []
      | Some k \<Rightarrow> if k = [] then [] else [(lit ''Authorization'', lit ''Bearer '' @ k)])"

subsection \<open>The completion client\<close>

text \<open>
  \<^verbatim>\<open>json_response.get("choices", [{}])[0].get("text", "").strip()\<close>
\<close>

definition extract_text :: "json \<Rightarrow> py_error + py_str" where
  "extract_text json_response =
     (case py_get json_response (lit ''choices'') (JArr [JObj []]) of
        Inl e \<Rightarrow> Inl e
      | Inr choices \<Rightarrow>
          (case py_index0 choices of
             Inl e \<Rightarrow> Inl e
           | Inr choice \<Rightarrow>
               (case py_get choice (lit ''text'') (JStr []) of
                  Inl e \<Rightarrow> Inl e
                | Inr t \<Rightarrow> py_strip_value t)))"

text \<open>
  What the \<^verbatim>\<open>try\<close> block makes of the outcome of the POST; a
  \<^verbatim>\<open>RequestException\<close> is wrapped into a \<^verbatim>\<open>RuntimeError\<close>, any other exception
  passes. \<^verbatim>\<open>raise_for_status\<close> raises for the statuses 400 to 599.
\<close>

definition read_response :: "http_outcome \<Rightarrow> py_error + py_str" where
  "read_response out =
     (case out of
        PostRaises m \<Rightarrow> Inl (RuntimeError (lit ''API call failed: '') (Some (TransportError m)))
      | Response r \<Rightarrow>
          if 400 \<le> status_code r \<and> status_code r < 600
          then Inl (RuntimeError (lit ''API call failed: '') (Some (HTTPError (status_code r))))
          else
            (case json_body r of
               None \<Rightarrow> Inl (RuntimeError (lit ''API call failed: '') (Some JSONDecodeError))
             | Some json_response \<Rightarrow>
                 (case extract_text json_response of
                    Inl e \<Rightarrow> Inl e
                  | Inr text \<Rightarrow>
                      if text = []
                      then Inl (RuntimeError (lit ''API returned an empty response.'') None)
                      else Inr text)))"

definition make_request :: "'s world \<Rightarrow> py_str \<Rightarrow> int \<Rightarrow> real \<Rightarrow> py_str \<Rightarrow> request" where
  "make_request w p mt temp mdl =
     \<lparr>url = API_ENDPOINT, headers = HEADERS (api_key w),
      json_payload = \<lparr>model = mdl, prompt = py_strip p, max_tokens = mt, temperature = temp\<rparr>\<rparr>"

definition make_api_call ::
  "'s server \<Rightarrow> 's world \<Rightarrow> py_str \<Rightarrow> int \<Rightarrow> real \<Rightarrow> py_str \<Rightarrow> (py_error + py_str) \<times> 's world"
where
  "make_api_call srv w p mt temp mdl =
     (let req = make_request w p mt temp mdl;
          (out, s) = srv (service w) req
      in (read_response out, w\<lparr>service := s, sent := sent w @ [req]\<rparr>))"

text \<open>The call with the default arguments, as the orchestrator makes it.\<close>

definition make_api_call_default :: "'s server \<Rightarrow> 's world \<Rightarrow> py_str \<Rightarrow> (py_error + py_str) \<times> 's world" where
  "make_api_call_default srv w p = make_api_call srv w p 1000 DEFAULT_TEMPERATURE DEFAULT_MODEL"

subsection \<open>The orchestrator\<close>

definition initial_prompt :: "py_str \<Rightarrow> py_str \<Rightarrow> py_str \<Rightarrow> py_str" where
  "initial_prompt source_text source_language target_language =
     lit ''\<newline>Translate the following text from '' @ source_language @ lit '' to ''
     @ target_language @ lit '':\<newline>'' @ source_text
     @ lit ''\<newline>Ensure the translation is accurate, fluent, and captures all nuances of the original text. \<newline>Provide only the translation in ''
     @ target_language @ lit ''.\<newline>''"

definition refine_prompt :: "py_str \<Rightarrow> py_str \<Rightarrow> py_str" where
  "refine_prompt target_language initial_translation =
     lit ''\<newline>Improve the following translation for accuracy and fluency. \<newline>Make sure it captures the original meaning and reads naturally in ''
     @ target_language @ lit '':\<newline>'' @ initial_translation @ lit ''\<newline>''"

definition compare_prompt :: "py_str \<Rightarrow> py_str \<Rightarrow> py_str \<Rightarrow> py_str" where
  "compare_prompt target_language initial_translation refined_translation =
     lit ''\<newline>Between the two translations below, indicate which is better based on accuracy, fluency, \<newline>and naturalness in ''
     @ target_language
     @ lit ''. Respond with 'Version 1' or 'Version 2':\<newline>Version 1: ''
     @ initial_translation @ lit ''\<newline>Version 2: '' @ refined_translation @ lit ''\<newline>''"

text \<open>The decision on the text of the third call.\<close>

definition decide_best :: "py_str \<Rightarrow> py_str \<Rightarrow> py_str \<Rightarrow> py_error + py_str" where
  "decide_best initial_translation refined_translation best_version =
     (if py_in (lit ''Version 1'') best_version then Inr initial_translation
      else if py_in (lit ''Version 2'') best_version then Inr refined_translation
      else Inl (ValueError
             (lit ''Unexpected output from API during comparison: '' @ best_version)))"

definition translate_text ::
  "'s server \<Rightarrow> 's world \<Rightarrow> py_str \<Rightarrow> py_str \<Rightarrow> py_str \<Rightarrow> (py_error + py_str) \<times> 's world"
where
  "translate_text srv w source_text source_language target_language =
     (case make_api_call_default srv w (initial_prompt source_text source_language target_language) of
        (Inl e, w1) \<Rightarrow> (Inl e, w1)
      | (Inr initial_translation, w1) \<Rightarrow>
          (case make_api_call_default srv w1 (refine_prompt target_language initial_translation) of
             (Inl e, w2) \<Rightarrow> (Inl e, w2)
           | (Inr refined_translation, w2) \<Rightarrow>
               (case make_api_call_default srv w2
                       (compare_prompt target_language initial_translation refined_translation) of
                  (Inl e, w3) \<Rightarrow> (Inl e, w3)
                | (Inr best_version, w3) \<Rightarrow>
                    (decide_best initial_translation refined_translation best_version, w3))))"

subsection \<open>The driver\<close>

text \<open>The four positional arguments.\<close>

record args =
  infile :: py_str
  outfile :: py_str
  source_language :: py_str
  target_language :: py_str

text \<open>
  \<^verbatim>\<open>open(path, "r", encoding="utf-8")\<close> followed by \<^verbatim>\<open>read()\<close>, on what
  \<^verbatim>\<open>open\<close> finds for the path. For a NUL character CPython raises
  \<^verbatim>\<open>ValueError("embedded null byte")\<close>.
\<close>

fun read_text :: "entry \<Rightarrow> py_error + py_str" where
  "read_text Absent = Inl FileNotFoundError"
| "read_text NoDirectory = Inl FileNotFoundError"
| "read_text NotADirectory = Inl NotADirectoryError"
| "read_text Directory = Inl IsADirectoryError"
| "read_text (Regular r wr d) =
     (if \<not> r then Inl PermissionError
      else case d of Utf8 t \<Rightarrow> Inr t | NotUtf8 \<Rightarrow> Inl UnicodeDecodeError)"
| "read_text NulInName = Inl (ValueError (lit ''embedded null byte''))"
| "read_text Unusable = Inl OSError"

text \<open>The UTF-8 codec refuses the surrogate code points U+D800..U+DFFF.\<close>

definition encodable :: "py_str \<Rightarrow> bool" where
  "encodable t = list_all (\<lambda>c. c < 55296 \<or> 57343 < c) t"

text \<open>
  \<^verbatim>\<open>open(path, "w", encoding="utf-8")\<close> followed by \<^verbatim>\<open>write(t)\<close>: the exception
  raised, if any, and what the path resolves to afterwards. Opening creates or truncates
  the file before anything is written.
\<close>

fun write_text :: "entry \<Rightarrow> py_str \<Rightarrow> py_error option \<times> entry" where
  "write_text Absent t =
     (if encodable t then (None, Regular True True (Utf8 t))
      else (Some UnicodeEncodeError, Regular True True (Utf8 [])))"
| "write_text NoDirectory t = (Some FileNotFoundError, NoDirectory)"
| "write_text NotADirectory t = (Some NotADirectoryError, NotADirectory)"
| "write_text Directory t = (Some IsADirectoryError, Directory)"
| "write_text (Regular r wr d) t =
     (if \<not> wr then (Some PermissionError, Regular r wr d)
      else if encodable t then (None, Regular r wr (Utf8 t))
      else (Some UnicodeEncodeError, Regular r wr (Utf8 [])))"
| "write_text NulInName t = (Some (ValueError (lit ''embedded null byte'')), NulInName)"
| "write_text Unusable t = (Some OSError, Unusable)"

text \<open>
  The \<^verbatim>\<open>except\<close> clauses of \<^verbatim>\<open>main\<close>, in their order: \<^verbatim>\<open>FileNotFoundError\<close>,
  \<^verbatim>\<open>RuntimeError\<close>, \<^verbatim>\<open>ValueError\<close> (with its subclasses), \<^verbatim>\<open>Exception\<close>.
\<close>

fun report :: "py_error \<Rightarrow> output_line" where
  "report FileNotFoundError = Diagnostic (lit ''Error: File not found - '') FileNotFoundError"
| "report (RuntimeError m c) = Diagnostic (lit ''Error during translation: '') (RuntimeError m c)"
| "report (ValueError m) = Diagnostic (lit ''Translation error: '') (ValueError m)"
| "report UnicodeDecodeError = Diagnostic (lit ''Translation error: '') UnicodeDecodeError"
| "report UnicodeEncodeError = Diagnostic (lit ''Translation error: '') UnicodeEncodeError"
| "report e = Diagnostic (lit ''Unexpected error: '') e"

text \<open>A handler prints its line and calls \<^verbatim>\<open>exit(1)\<close>.\<close>

definition handle :: "py_error \<Rightarrow> 's world \<Rightarrow> int \<times> 's world" where
  "handle e w = (1, w\<lparr>stdout := stdout w @ [report e]\<rparr>)"

text \<open>\<^verbatim>\<open>main\<close> on the parsed arguments: the exit status and the world it leaves.\<close>

definition main :: "'s server \<Rightarrow> args \<Rightarrow> 's world \<Rightarrow> int \<times> 's world" where
  "main srv a w =
     (case read_text (files w (infile a)) of
        Inl e \<Rightarrow> handle e w
      | Inr source_text \<Rightarrow>
          (case translate_text srv w source_text (source_language a) (target_language a) of
             (Inl e, w1) \<Rightarrow> handle e w1
           | (Inr translated_text, w1) \<Rightarrow>
               (case write_text (files w1 (outfile a)) translated_text of
                  (Some e, en) \<Rightarrow> handle e (w1\<lparr>files := (files w1)(outfile a := en)\<rparr>)
                | (None, en) \<Rightarrow> (0, w1\<lparr>files := (files w1)(outfile a := en)\<rparr>))))"

subsection \<open>Well-formed responses and particular services\<close>

text \<open>
  The expected shape of a response body: a JSON object with a \<open>choices\<close> array whose
  first element is an object with a \<open>text\<close> string; \<open>first_choice_text\<close> is that string.
\<close>

fun first_choice_text :: "json \<Rightarrow> py_str option" where
  "first_choice_text (JObj kvs) =
     (case map_of kvs (lit ''choices'') of
        Some (JArr (JObj c # rest)) \<Rightarrow>
          (case map_of c (lit ''text'') of Some (JStr t) \<Rightarrow> Some t | _ \<Rightarrow> None)
      | _ \<Rightarrow> None)"
| "first_choice_text _ = None"

text \<open>
  The text of a response that the client accepts: the POST returns, the status is not
  one that \<^verbatim>\<open>raise_for_status\<close> rejects, and the body has the expected shape.
\<close>

fun response_text :: "http_outcome \<Rightarrow> py_str option" where
  "response_text (PostRaises m) = None"
| "response_text (Response r) =
     (if 400 \<le> status_code r \<and> status_code r < 600 then None
      else case json_body r of None \<Rightarrow> None | Some j \<Rightarrow> first_choice_text j)"

text \<open>
  \<open>answers srv s rq t s'\<close>: in state \<open>s\<close> the service answers the request \<open>rq\<close> with a
  well-formed response of text \<open>t\<close> and moves to \<open>s'\<close>.
\<close>

definition answers :: "'s server \<Rightarrow> 's \<Rightarrow> request \<Rightarrow> py_str \<Rightarrow> 's \<Rightarrow> bool" where
  "answers srv s rq t s' = (response_text (fst (srv s rq)) = Some t \<and> snd (srv s rq) = s')"

text \<open>The request that \<open>make_api_call_default\<close> posts for a prompt.\<close>

definition completion_request :: "'s world \<Rightarrow> py_str \<Rightarrow> request" where
  "completion_request w p = make_request w p 1000 DEFAULT_TEMPERATURE DEFAULT_MODEL"

text \<open>A 200 response with one choice.\<close>

definition ok_response :: "py_str \<Rightarrow> http_outcome" where
  "ok_response t =
     Response \<lparr>status_code = 200,
               json_body = Some (JObj [(lit ''choices'', JArr [JObj [(lit ''text'', JStr t)]])])\<rparr>"

text \<open>A 200 response whose \<open>choices\<close> array is empty.\<close>

definition no_choices_response :: http_outcome where
  "no_choices_response =
     Response \<lparr>status_code = 200, json_body = Some (JObj [(lit ''choices'', JArr [])])\<rparr>"

text \<open>A service that plays a script of outcomes, one per request.\<close>

fun scripted :: "http_outcome list server" where
  "scripted [] rq = (PostRaises [], [])"
| "scripted (out # outs) rq = (out, outs)"

text \<open>A service without state: the outcome is a fixed function of the prompt it receives.\<close>

definition stateless :: "(py_str \<Rightarrow> http_outcome) \<Rightarrow> 's server" where
  "stateless f s rq = (f (prompt (json_payload rq)), s)"

text \<open>A world with no key, no request sent, nothing printed.\<close>

definition fresh_world :: "'s \<Rightarrow> (py_str \<Rightarrow> entry) \<Rightarrow> 's world" where
  "fresh_world s fs = \<lparr>api_key = None, service = s, sent = [], files = fs, stdout = []\<rparr>"

subsection \<open>Example inputs\<close>

definition demo_args :: args where
  "demo_args =
     \<lparr>infile = lit ''in.txt'', outfile = lit ''out.txt'',
      source_language = lit ''English'', target_language = lit ''French''\<rparr>"

text \<open>A file system with a readable input file and no output file yet.\<close>

definition demo_files :: "py_str \<Rightarrow> entry" where
  "demo_files p =
     (if p = lit ''in.txt'' then Regular True True (Utf8 (lit ''Hello world'')) else Absent)"

text \<open>The same, with the read permission of the input file taken away.\<close>

definition locked_files :: "py_str \<Rightarrow> entry" where
  "locked_files p =
     (if p = lit ''in.txt'' then Regular False True (Utf8 (lit ''Hello world'')) else Absent)"

text \<open>A file system without any file.\<close>

definition no_files :: "py_str \<Rightarrow> entry" where
  "no_files p = Absent"

text \<open>The input path goes through a regular file.\<close>

definition blocked_files :: "py_str \<Rightarrow> entry" where
  "blocked_files p = (if p = lit ''in.txt'' then NotADirectory else Absent)"

text \<open>Three answers of a completion service: a translation, a refinement, a verdict.\<close>

definition demo_script :: "http_outcome list" where
  "demo_script =
     [ok_response (lit '' Bonjour le monde''),
      ok_response (lit ''Bonjour, le monde \<newline>''),
      ok_response (lit ''Version 2 is better'')]"


section \<open>Lemmas\<close>

subsection \<open>Strings\<close>

text \<open>\<open>py_in\<close> is the contiguous-sublist relation of the library.\<close>

lemma py_in_sublist: "py_in sub s = sublist sub s"
  by (induction s) (simp_all add: sublist_Cons_right)

lemma lit_eq_Nil [simp]: "(lit s = []) = (s = [])"
  by (simp add: lit_def)

lemma py_strip_Nil [simp]: "py_strip [] = []"
  by (simp add: py_strip_def py_lstrip_def py_rstrip_def)

text \<open>
  Stripping never removes an occurrence of a block that neither starts nor ends with
  whitespace.
\<close>

lemma sublist_dropWhile:
  assumes "sub \<noteq> []" "\<not> P (hd sub)"
  shows "sublist sub (dropWhile P s) = sublist sub s"
proof (induction s)
  case Nil
  show ?case by simp
next
  case (Cons c cs)
  show ?case
  proof (cases "P c")
    case True
    from assms have "\<not> prefix sub (c # cs)"
      using True by (cases sub) auto
    with True Cons show ?thesis by (simp add: sublist_Cons_right)
  next
    case False
    then show ?thesis by simp
  qed
qed

lemma sublist_rstrip:
  assumes "sub \<noteq> []" "\<not> P (last sub)"
  shows "sublist sub (rev (dropWhile P (rev s))) = sublist sub s"
proof -
  have "sublist sub (rev (dropWhile P (rev s))) = sublist (rev sub) (dropWhile P (rev s))"
    by (metis rev_rev_ident sublist_rev)
  also have "\<dots> = sublist (rev sub) (rev s)"
    using assms by (intro sublist_dropWhile) (simp_all add: hd_rev)
  also have "\<dots> = sublist sub s" by (simp add: sublist_rev)
  finally show ?thesis .
qed

lemma py_in_strip:
  assumes "sub \<noteq> []" "\<not> isspace (hd sub)" "\<not> isspace (last sub)"
  shows "py_in sub (py_strip s) = py_in sub s"
  using assms
  by (simp add: py_in_sublist py_strip_def py_lstrip_def py_rstrip_def sublist_rstrip sublist_dropWhile)

lemma version1_strip: "py_in (lit ''Version 1'') (py_strip s) = py_in (lit ''Version 1'') s"
  by (rule py_in_strip) (simp_all add: lit_def isspace_def)

lemma version2_strip: "py_in (lit ''Version 2'') (py_strip s) = py_in (lit ''Version 2'') s"
  by (rule py_in_strip) (simp_all add: lit_def isspace_def)

lemma version1_nonempty: "py_in (lit ''Version 1'') t \<Longrightarrow> py_strip t \<noteq> []"
  using version1_strip [of t] by (auto simp: lit_def)

lemma version2_nonempty: "py_in (lit ''Version 2'') t \<Longrightarrow> py_strip t \<noteq> []"
  using version2_strip [of t] by (auto simp: lit_def)

text \<open>
  What \<open>py_strip\<close> removes is whitespace at both ends, and what it leaves neither
  starts nor ends with whitespace.
\<close>

lemma py_strip_split:
  "\<exists>l r. s = l @ py_strip s @ r \<and> list_all isspace l \<and> list_all isspace r"
proof -
  let ?l = "takeWhile isspace s"
  let ?m = "dropWhile isspace s"
  let ?r = "rev (takeWhile isspace (rev ?m))"
  have 1: "s = ?l @ ?m" by simp
  have "rev ?m = takeWhile isspace (rev ?m) @ dropWhile isspace (rev ?m)" by simp
  then have "?m = rev (dropWhile isspace (rev ?m)) @ ?r"
    by (metis rev_append rev_rev_ident)
  then have 2: "?m = py_strip s @ ?r"
    by (simp add: py_strip_def py_lstrip_def py_rstrip_def)
  have 3: "list_all isspace ?l"
    by (simp add: list_all_iff) (meson set_takeWhileD)
  have 4: "list_all isspace ?r"
    by (simp add: list_all_iff) (meson set_takeWhileD)
  from 1 2 have "s = ?l @ py_strip s @ ?r" by metis
  with 3 4 show ?thesis by blast
qed

lemma py_strip_hd: "py_strip s \<noteq> [] \<Longrightarrow> \<not> isspace (hd (py_strip s))"
proof -
  assume ne: "py_strip s \<noteq> []"
  let ?m = "dropWhile isspace s"
  have eq: "py_strip s = rev (dropWhile isspace (rev ?m))"
    by (simp only: py_strip_def py_lstrip_def py_rstrip_def)
  have m: "?m \<noteq> []"
  proof
    assume e: "?m = []"
    have "py_strip s = []" unfolding eq e by simp
    with ne show False by contradiction
  qed
  then have h: "\<not> isspace (hd ?m)" by (rule hd_dropWhile)
  have "?m = py_strip s @ rev (takeWhile isspace (rev ?m))"
    by (metis py_strip_def py_lstrip_def py_rstrip_def rev_append rev_rev_ident takeWhile_dropWhile_id)
  with ne have "hd ?m = hd (py_strip s)" by (metis hd_append2)
  with h show ?thesis by simp
qed

lemma py_strip_last: "py_strip s \<noteq> [] \<Longrightarrow> \<not> isspace (last (py_strip s))"
proof -
  assume ne: "py_strip s \<noteq> []"
  let ?k = "dropWhile isspace (rev (dropWhile isspace s))"
  from ne have k: "?k \<noteq> []" by (simp add: py_strip_def py_lstrip_def py_rstrip_def)
  then have "\<not> isspace (hd ?k)" by (rule hd_dropWhile)
  moreover have "last (py_strip s) = hd ?k"
    using k by (simp add: py_strip_def py_lstrip_def py_rstrip_def last_rev)
  ultimately show ?thesis by simp
qed

lemma strip_examples:
  "py_strip (lit '' Bonjour le monde'') = lit ''Bonjour le monde''"
  "py_strip (lit ''Bonjour, le monde \<newline>'') = lit ''Bonjour, le monde''"
  "py_strip (lit ''Version 2 is better'') = lit ''Version 2 is better''"
  "py_strip (lit ''Version 1, not Version 2'') = lit ''Version 1, not Version 2''"
  "py_strip (lit '' I cannot decide '') = lit ''I cannot decide''"
  "py_strip (lit '' \<newline>'') = []"
  "py_strip (lit ''  Say  hi \<newline>'') = lit ''Say  hi''"
  "py_strip (lit '' Salut  toi '') = lit ''Salut  toi''"
  by (simp_all add: lit_def py_strip_def py_lstrip_def py_rstrip_def isspace_def)

subsection \<open>The completion client\<close>

lemma py_get_Inr:
  "py_get j k d = Inr x \<Longrightarrow>
   \<exists>kvs. j = JObj kvs \<and> x = (case map_of kvs k of Some v \<Rightarrow> v | None \<Rightarrow> d)"
  by (cases j) auto

lemma py_index0_Inr:
  "py_index0 j = Inr x \<Longrightarrow>
   (\<exists>xs. j = JArr (x # xs)) \<or> (\<exists>c cs. j = JStr (c # cs) \<and> x = JStr [c])"
  by (cases j rule: py_index0.cases) auto

lemma py_strip_value_Inr:
  "py_strip_value j = Inr v \<Longrightarrow> \<exists>s. j = JStr s \<and> v = py_strip s"
  by (cases j) auto

lemma extract_text_first_choice:
  "first_choice_text j = Some t \<Longrightarrow> extract_text j = Inr (py_strip t)"
  by (cases j)
     (auto simp: extract_text_def split: option.splits json.splits list.splits)

lemma extract_text_Inr:
  assumes "extract_text j = Inr v"
  shows "v = [] \<or> (\<exists>t. first_choice_text j = Some t \<and> v = py_strip t)"
proof -
  from assms obtain choices choice t where
    g1: "py_get j (lit ''choices'') (JArr [JObj []]) = Inr choices" and
    ix: "py_index0 choices = Inr choice" and
    g2: "py_get choice (lit ''text'') (JStr []) = Inr t" and
    st: "py_strip_value t = Inr v"
    by (auto simp: extract_text_def split: sum.splits)
  from g1 obtain kvs where j: "j = JObj kvs" and
    choices: "choices = (case map_of kvs (lit ''choices'') of Some x \<Rightarrow> x | None \<Rightarrow> JArr [JObj []])"
    by (blast dest: py_get_Inr)
  from g2 obtain c where choice: "choice = JObj c" and
    t: "t = (case map_of c (lit ''text'') of Some x \<Rightarrow> x | None \<Rightarrow> JStr [])"
    by (blast dest: py_get_Inr)
  from st obtain raw where raw: "t = JStr raw" "v = py_strip raw"
    by (blast dest: py_strip_value_Inr)
  from ix choice obtain rest where arr: "choices = JArr (JObj c # rest)"
    by (auto dest: py_index0_Inr)
  show ?thesis
  proof (cases "map_of c (lit ''text'')")
    case None
    with t raw show ?thesis by simp
  next
    case tx: (Some x)
    with t raw have x: "x = JStr raw" by simp
    show ?thesis
    proof (cases "map_of kvs (lit ''choices'')")
      case None
      with choices arr have "c = []" by simp
      with tx show ?thesis by simp
    next
      case (Some y)
      with choices arr have "y = JArr (JObj c # rest)" by simp
      with Some tx x j raw show ?thesis by simp
    qed
  qed
qed

text \<open>
  The two defaults of the extraction: a body without \<open>choices\<close>, and a first choice
  without \<open>text\<close>, both give the empty text.
\<close>

lemma extract_text_defaults:
  "map_of kvs (lit ''choices'') = None \<Longrightarrow> extract_text (JObj kvs) = Inr []"
  "map_of kvs (lit ''choices'') = Some (JArr (JObj c # rest)) \<Longrightarrow> map_of c (lit ''text'') = None
     \<Longrightarrow> extract_text (JObj kvs) = Inr []"
  by (simp_all add: extract_text_def)


text \<open>A failed POST and a status from 400 to 599 end in a \<^verbatim>\<open>RuntimeError\<close>.\<close>

lemma read_response_request_exception:
  "read_response (PostRaises m) =
     Inl (RuntimeError (lit ''API call failed: '') (Some (TransportError m)))"
  "400 \<le> status_code r \<Longrightarrow> status_code r < 600 \<Longrightarrow>
   read_response (Response r) =
     Inl (RuntimeError (lit ''API call failed: '') (Some (HTTPError (status_code r))))"
  by (simp_all add: read_response_def)

lemma read_response_text:
  "response_text out = Some t \<Longrightarrow>
   read_response out =
     (if py_strip t = [] then Inl (RuntimeError (lit ''API returned an empty response.'') None)
      else Inr (py_strip t))"
  by (cases out)
     (auto simp: read_response_def extract_text_first_choice split: if_splits option.splits)

lemma read_response_Inr:
  "read_response out = Inr v \<Longrightarrow> \<exists>t. response_text out = Some t \<and> v = py_strip t \<and> v \<noteq> []"
  by (cases out)
     (auto simp: read_response_def split: if_splits option.splits sum.splits
           dest: extract_text_Inr)

lemma make_api_call_eq:
  "make_api_call srv w p mt temp mdl =
     (read_response (fst (srv (service w) (make_request w p mt temp mdl))),
      w\<lparr>service := snd (srv (service w) (make_request w p mt temp mdl)),
        sent := sent w @ [make_request w p mt temp mdl]\<rparr>)"
  by (simp add: make_api_call_def Let_def split: prod.splits)

lemma make_api_call_clean:
  "fst (make_api_call srv w p mt temp mdl) = Inr v \<Longrightarrow>
   v \<noteq> [] \<and> \<not> isspace (hd v) \<and> \<not> isspace (last v)"
  by (auto simp: make_api_call_eq dest!: read_response_Inr simp: py_strip_hd py_strip_last)

lemma default_call_eq:
  "make_api_call_default srv w p =
     (read_response (fst (srv (service w) (completion_request w p))),
      w\<lparr>service := snd (srv (service w) (completion_request w p)),
        sent := sent w @ [completion_request w p]\<rparr>)"
  by (simp add: make_api_call_default_def completion_request_def make_api_call_eq)

lemma completion_request_update [simp]:
  "completion_request (w\<lparr>service := s, sent := l\<rparr>) p = completion_request w p"
  by (simp add: completion_request_def make_request_def)

lemma default_call_answers:
  "answers srv (service w) (completion_request w p) t s' \<Longrightarrow>
   make_api_call_default srv w p =
     (if py_strip t = [] then Inl (RuntimeError (lit ''API returned an empty response.'') None)
      else Inr (py_strip t),
      w\<lparr>service := s', sent := sent w @ [completion_request w p]\<rparr>)"
  by (simp add: default_call_eq answers_def read_response_text)

lemma default_call_clean:
  "make_api_call_default srv w p = (Inr v, w') \<Longrightarrow> v \<noteq> [] \<and> \<not> isspace (hd v) \<and> \<not> isspace (last v)"
  by (auto simp: default_call_eq dest!: read_response_Inr simp: py_strip_hd py_strip_last)


lemma default_call_stateless_eq:
  "make_api_call_default (stateless f) w p =
     (read_response (f (py_strip p)), w\<lparr>sent := sent w @ [completion_request w p]\<rparr>)"
  by (simp add: default_call_eq stateless_def completion_request_def make_request_def)

lemma response_text_ok [simp]: "response_text (ok_response t) = Some t"
  by (simp add: ok_response_def lit_def)

lemma scripted_answers [simp]: "answers scripted (ok_response t # outs) rq t outs"
  by (simp add: answers_def)

lemma service_fresh_world [simp]: "service (fresh_world s fs) = s"
  by (simp add: fresh_world_def)

subsection \<open>The orchestrator\<close>

text \<open>The run of the three calls when the first two return a text.\<close>

lemma translate_text_run:
  assumes a1: "answers srv (service w) (completion_request w (initial_prompt src sl tg)) t1 s1"
    and n1: "py_strip t1 \<noteq> []"
    and a2: "answers srv s1 (completion_request w (refine_prompt tg (py_strip t1))) t2 s2"
    and n2: "py_strip t2 \<noteq> []"
    and a3: "answers srv s2
               (completion_request w (compare_prompt tg (py_strip t1) (py_strip t2))) t3 s3"
  shows "translate_text srv w src sl tg =
           (if py_strip t3 = []
            then Inl (RuntimeError (lit ''API returned an empty response.'') None)
            else decide_best (py_strip t1) (py_strip t2) (py_strip t3),
            w\<lparr>service := s3,
              sent := sent w @
                [completion_request w (initial_prompt src sl tg),
                 completion_request w (refine_prompt tg (py_strip t1)),
                 completion_request w (compare_prompt tg (py_strip t1) (py_strip t2))]\<rparr>)"
proof -
  let ?r1 = "completion_request w (initial_prompt src sl tg)"
  let ?r2 = "completion_request w (refine_prompt tg (py_strip t1))"
  let ?r3 = "completion_request w (compare_prompt tg (py_strip t1) (py_strip t2))"
  let ?w1 = "w\<lparr>service := s1, sent := sent w @ [?r1]\<rparr>"
  let ?w2 = "?w1\<lparr>service := s2, sent := sent ?w1 @ [?r2]\<rparr>"
  have c1: "make_api_call_default srv w (initial_prompt src sl tg) = (Inr (py_strip t1), ?w1)"
    using default_call_answers [OF a1] n1 by simp
  have "answers srv (service ?w1) (completion_request ?w1 (refine_prompt tg (py_strip t1))) t2 s2"
    using a2 by simp
  from default_call_answers [OF this] n2
  have c2: "make_api_call_default srv ?w1 (refine_prompt tg (py_strip t1)) = (Inr (py_strip t2), ?w2)"
    by simp
  have "answers srv (service ?w2)
          (completion_request ?w2 (compare_prompt tg (py_strip t1) (py_strip t2))) t3 s3"
    using a3 by simp
  from default_call_answers [OF this]
  have c3: "make_api_call_default srv ?w2 (compare_prompt tg (py_strip t1) (py_strip t2)) =
              (if py_strip t3 = []
               then Inl (RuntimeError (lit ''API returned an empty response.'') None)
               else Inr (py_strip t3),
               w\<lparr>service := s3, sent := sent w @ [?r1, ?r2, ?r3]\<rparr>)"
    by simp
  show ?thesis
    unfolding translate_text_def c1 prod.case sum.case c2 c3 by simp
qed

lemma translate_text_stop1:
  assumes a1: "answers srv (service w) (completion_request w (initial_prompt src sl tg)) t1 s1"
    and e1: "py_strip t1 = []"
  shows "translate_text srv w src sl tg =
           (Inl (RuntimeError (lit ''API returned an empty response.'') None),
            w\<lparr>service := s1,
              sent := sent w @ [completion_request w (initial_prompt src sl tg)]\<rparr>)"
  unfolding translate_text_def using default_call_answers [OF a1] e1 by simp

lemma translate_text_stop2:
  assumes a1: "answers srv (service w) (completion_request w (initial_prompt src sl tg)) t1 s1"
    and n1: "py_strip t1 \<noteq> []"
    and a2: "answers srv s1 (completion_request w (refine_prompt tg (py_strip t1))) t2 s2"
    and e2: "py_strip t2 = []"
  shows "translate_text srv w src sl tg =
           (Inl (RuntimeError (lit ''API returned an empty response.'') None),
            w\<lparr>service := s2,
              sent := sent w @
                [completion_request w (initial_prompt src sl tg),
                 completion_request w (refine_prompt tg (py_strip t1))]\<rparr>)"
proof -
  let ?r1 = "completion_request w (initial_prompt src sl tg)"
  let ?w1 = "w\<lparr>service := s1, sent := sent w @ [?r1]\<rparr>"
  have c1: "make_api_call_default srv w (initial_prompt src sl tg) = (Inr (py_strip t1), ?w1)"
    using default_call_answers [OF a1] n1 by simp
  have "answers srv (service ?w1) (completion_request ?w1 (refine_prompt tg (py_strip t1))) t2 s2"
    using a2 by simp
  from default_call_answers [OF this] e2
  have c2: "make_api_call_default srv ?w1 (refine_prompt tg (py_strip t1)) =
              (Inl (RuntimeError (lit ''API returned an empty response.'') None),
               ?w1\<lparr>service := s2,
                    sent := sent ?w1 @ [completion_request w (refine_prompt tg (py_strip t1))]\<rparr>)"
    by simp
  show ?thesis
    unfolding translate_text_def c1 prod.case sum.case c2 by simp
qed

lemma decide_best_strip:
  "decide_best a b (py_strip t) =
     (if py_in (lit ''Version 1'') t then Inr a
      else if py_in (lit ''Version 2'') t then Inr b
      else Inl (ValueError (lit ''Unexpected output from API during comparison: '' @ py_strip t)))"
  by (simp add: decide_best_def version1_strip version2_strip)

lemma decide_best_Inr: "decide_best a b v = Inr x \<Longrightarrow> x = a \<or> x = b"
  by (auto simp: decide_best_def split: if_splits)

lemma translate_text_Inr:
  assumes "fst (translate_text srv w src sl tg) = Inr v"
  shows "\<exists>w0 p w'. make_api_call_default srv w0 p = (Inr v, w')"
  using assms unfolding translate_text_def
  by (auto split: prod.splits sum.splits dest!: decide_best_Inr)


lemma translate_text_stateless:
  "fst (translate_text (stateless f) w src sl tg) =
          (case read_response (f (py_strip (initial_prompt src sl tg))) of
             Inl e \<Rightarrow> Inl e
           | Inr x \<Rightarrow>
               (case read_response (f (py_strip (refine_prompt tg x))) of
                  Inl e \<Rightarrow> Inl e
                | Inr y \<Rightarrow>
                    (case read_response (f (py_strip (compare_prompt tg x y))) of
                       Inl e \<Rightarrow> Inl e
                     | Inr v \<Rightarrow> decide_best x y v)))"
  by (simp add: translate_text_def default_call_stateless_eq split: sum.splits)

text \<open>The run on a script of three well-formed responses.\<close>

lemma scripted_run:
  assumes "py_strip a \<noteq> []" and "py_strip b \<noteq> []"
  shows "fst (translate_text scripted
                (fresh_world [ok_response a, ok_response b, ok_response c] fs) src sl tg) =
           (if py_strip c = []
            then Inl (RuntimeError (lit ''API returned an empty response.'') None)
            else decide_best (py_strip a) (py_strip b) (py_strip c))"
  using translate_text_run [of scripted
      "fresh_world [ok_response a, ok_response b, ok_response c] fs" src sl tg
      a "[ok_response b, ok_response c]" b "[ok_response c]" c "[]"] assms
  by simp




section \<open>The claims\<close>

text \<open>
  In the statements below, \<open>answers srv s rq t s'\<close> says that the service answers the
  request \<open>rq\<close> with a well-formed response of text \<open>t\<close>; a text is non-empty when it is
  not empty after trimming, which is how the client reads it. Candidate A is the result of
  the first call, \<open>py_strip t1\<close>; candidate B is the result of the second, \<open>py_strip t2\<close>;
  the arbitration response has the text \<open>t3\<close>.
\<close>

text \<open>
  Claim C1. Whenever the three responses are well-formed and the first two are non-empty,
  \<open>translate_text\<close> returns candidate A if the arbitration response contains
  \<open>Version 1\<close>, and otherwise candidate B if it contains \<open>Version 2\<close>.
\<close>

theorem translate_text_returns_named_candidate:
  assumes a1: "answers srv (service w) (completion_request w (initial_prompt src sl tg)) t1 s1"
    and n1: "py_strip t1 \<noteq> []"
    and a2: "answers srv s1 (completion_request w (refine_prompt tg (py_strip t1))) t2 s2"
    and n2: "py_strip t2 \<noteq> []"
    and a3: "answers srv s2
               (completion_request w (compare_prompt tg (py_strip t1) (py_strip t2))) t3 s3"
  shows "(py_in (lit ''Version 1'') t3 \<longrightarrow>
            fst (translate_text srv w src sl tg) = Inr (py_strip t1)) \<and>
         (\<not> py_in (lit ''Version 1'') t3 \<and> py_in (lit ''Version 2'') t3 \<longrightarrow>
            fst (translate_text srv w src sl tg) = Inr (py_strip t2))"
  using translate_text_run [OF a1 n1 a2 n2 a3] version1_nonempty [of t3] version2_nonempty [of t3]
  by (simp add: decide_best_strip)

theorem translate_text_returns_named_candidate_witness:
  "fst (translate_text scripted (fresh_world demo_script demo_files)
          (lit ''Hello world'') (lit ''English'') (lit ''French'')) = Inr (lit ''Bonjour, le monde'')"
  using translate_text_returns_named_candidate [of scripted "fresh_world demo_script demo_files"
      "lit ''Hello world''" "lit ''English''" "lit ''French''" "lit '' Bonjour le monde''"
      "[ok_response (lit ''Bonjour, le monde \<newline>''), ok_response (lit ''Version 2 is better'')]"
      "lit ''Bonjour, le monde \<newline>''" "[ok_response (lit ''Version 2 is better'')]"
      "lit ''Version 2 is better''" "[]"]
  by (simp add: strip_examples demo_script_def) (simp add: lit_def)

text \<open>
  Claim C2. If the response of one of the three steps is empty after trimming (the steps
  before it having returned a text), \<open>translate_text\<close> fails with the
  \<^verbatim>\<open>RuntimeError\<close> of the empty response, and the requests sent are exactly those up
  to the failing step: one, two or three.
\<close>

theorem translate_text_stops_at_empty_response:
  "(answers srv (service w) (completion_request w (initial_prompt src sl tg)) t1 s1 \<and>
    py_strip t1 = [] \<longrightarrow>
      translate_text srv w src sl tg =
        (Inl (RuntimeError (lit ''API returned an empty response.'') None),
         w\<lparr>service := s1,
           sent := sent w @ [completion_request w (initial_prompt src sl tg)]\<rparr>)) \<and>
   (answers srv (service w) (completion_request w (initial_prompt src sl tg)) t1 s1 \<and>
    py_strip t1 \<noteq> [] \<and>
    answers srv s1 (completion_request w (refine_prompt tg (py_strip t1))) t2 s2 \<and>
    py_strip t2 = [] \<longrightarrow>
      translate_text srv w src sl tg =
        (Inl (RuntimeError (lit ''API returned an empty response.'') None),
         w\<lparr>service := s2,
           sent := sent w @
             [completion_request w (initial_prompt src sl tg),
              completion_request w (refine_prompt tg (py_strip t1))]\<rparr>)) \<and>
   (answers srv (service w) (completion_request w (initial_prompt src sl tg)) t1 s1 \<and>
    py_strip t1 \<noteq> [] \<and>
    answers srv s1 (completion_request w (refine_prompt tg (py_strip t1))) t2 s2 \<and>
    py_strip t2 \<noteq> [] \<and>
    answers srv s2
      (completion_request w (compare_prompt tg (py_strip t1) (py_strip t2))) t3 s3 \<and>
    py_strip t3 = [] \<longrightarrow>
      translate_text srv w src sl tg =
        (Inl (RuntimeError (lit ''API returned an empty response.'') None),
         w\<lparr>service := s3,
           sent := sent w @
             [completion_request w (initial_prompt src sl tg),
              completion_request w (refine_prompt tg (py_strip t1)),
              completion_request w (compare_prompt tg (py_strip t1) (py_strip t2))]\<rparr>))"
  using translate_text_stop1 [of srv w src sl tg t1 s1]
    translate_text_stop2 [of srv w src sl tg t1 s1 t2 s2]
    translate_text_run [of srv w src sl tg t1 s1 t2 s2 t3 s3]
  by simp

theorem translate_text_stops_at_empty_response_witness:
  "fst (translate_text scripted (fresh_world [ok_response (lit '' \<newline>'')] no_files)
          (lit ''Hello world'') (lit ''English'') (lit ''French''))
     = Inl (RuntimeError (lit ''API returned an empty response.'') None) \<and>
   length (sent (snd (translate_text scripted
          (fresh_world [ok_response (lit '' \<newline>'')] no_files)
          (lit ''Hello world'') (lit ''English'') (lit ''French'')))) = 1 \<and>
   fst (translate_text scripted
          (fresh_world [ok_response (lit '' Bonjour le monde''), ok_response (lit '' \<newline>'')]
             no_files)
          (lit ''Hello world'') (lit ''English'') (lit ''French''))
     = Inl (RuntimeError (lit ''API returned an empty response.'') None) \<and>
   length (sent (snd (translate_text scripted
          (fresh_world [ok_response (lit '' Bonjour le monde''), ok_response (lit '' \<newline>'')]
             no_files)
          (lit ''Hello world'') (lit ''English'') (lit ''French'')))) = 2 \<and>
   fst (translate_text scripted
          (fresh_world
             [ok_response (lit '' Bonjour le monde''),
              ok_response (lit ''Bonjour, le monde \<newline>''), ok_response (lit '' \<newline>'')]
             no_files)
          (lit ''Hello world'') (lit ''English'') (lit ''French''))
     = Inl (RuntimeError (lit ''API returned an empty response.'') None) \<and>
   length (sent (snd (translate_text scripted
          (fresh_world
             [ok_response (lit '' Bonjour le monde''),
              ok_response (lit ''Bonjour, le monde \<newline>''), ok_response (lit '' \<newline>'')]
             no_files)
          (lit ''Hello world'') (lit ''English'') (lit ''French'')))) = 3"
  using
    translate_text_stops_at_empty_response [of scripted "fresh_world [ok_response (lit '' \<newline>'')] no_files"
      "lit ''Hello world''" "lit ''English''" "lit ''French''" "lit '' \<newline>''" "[]"]
    translate_text_stops_at_empty_response [of scripted
      "fresh_world [ok_response (lit '' Bonjour le monde''), ok_response (lit '' \<newline>'')]
         no_files"
      "lit ''Hello world''" "lit ''English''" "lit ''French''" "lit '' Bonjour le monde''"
      "[ok_response (lit '' \<newline>'')]" "lit '' \<newline>''" "[]"]
    translate_text_stops_at_empty_response [of scripted
      "fresh_world
         [ok_response (lit '' Bonjour le monde''),
          ok_response (lit ''Bonjour, le monde \<newline>''), ok_response (lit '' \<newline>'')]
         no_files"
      "lit ''Hello world''" "lit ''English''" "lit ''French''" "lit '' Bonjour le monde''"
      "[ok_response (lit ''Bonjour, le monde \<newline>''), ok_response (lit '' \<newline>'')]"
      "lit ''Bonjour, le monde \<newline>''" "[ok_response (lit '' \<newline>'')]"
      "lit '' \<newline>''" "[]"]
  by (simp add: strip_examples fresh_world_def)

text \<open>
  Claim C3. A body whose \<open>choices\<close> array is present but empty does not end in a
  \<^verbatim>\<open>RuntimeError\<close>: \<^verbatim>\<open>[][0]\<close> raises \<^verbatim>\<open>IndexError\<close>, which the
  \<^verbatim>\<open>except\<close> clause of the client does not catch. (A missing \<open>choices\<close> array and a
  missing \<open>text\<close> field do end in the \<^verbatim>\<open>RuntimeError\<close> of the empty response, by
  \<open>extract_text_defaults\<close>.)
\<close>

theorem make_api_call_empty_choices_IndexError:
  "fst (make_api_call scripted (fresh_world [no_choices_response] no_files) (lit ''Hello'')
          1000 DEFAULT_TEMPERATURE DEFAULT_MODEL) = Inl IndexError"
  by (simp add: make_api_call_eq fresh_world_def no_choices_response_def read_response_def
        extract_text_def lit_def)

text \<open>
  Claim C4. If the arbitration response contains both \<open>Version 1\<close> and \<open>Version 2\<close>,
  \<open>translate_text\<close> returns candidate A.
\<close>

theorem translate_text_version1_precedence:
  assumes a1: "answers srv (service w) (completion_request w (initial_prompt src sl tg)) t1 s1"
    and n1: "py_strip t1 \<noteq> []"
    and a2: "answers srv s1 (completion_request w (refine_prompt tg (py_strip t1))) t2 s2"
    and n2: "py_strip t2 \<noteq> []"
    and a3: "answers srv s2
               (completion_request w (compare_prompt tg (py_strip t1) (py_strip t2))) t3 s3"
    and v1: "py_in (lit ''Version 1'') t3"
    and v2: "py_in (lit ''Version 2'') t3"
  shows "fst (translate_text srv w src sl tg) = Inr (py_strip t1)"
  using translate_text_run [OF a1 n1 a2 n2 a3] version1_nonempty [OF v1] v1
  by (simp add: decide_best_strip)

theorem translate_text_version1_precedence_witness:
  "fst (translate_text scripted
          (fresh_world
             [ok_response (lit '' Bonjour le monde''),
              ok_response (lit ''Bonjour, le monde \<newline>''),
              ok_response (lit ''Version 1, not Version 2'')] no_files)
          (lit ''Hello world'') (lit ''English'') (lit ''French'')) = Inr (lit ''Bonjour le monde'')"
  using translate_text_version1_precedence [of scripted
      "fresh_world
             [ok_response (lit '' Bonjour le monde''),
              ok_response (lit ''Bonjour, le monde \<newline>''),
              ok_response (lit ''Version 1, not Version 2'')] no_files"
      "lit ''Hello world''" "lit ''English''" "lit ''French''" "lit '' Bonjour le monde''"
      "[ok_response (lit ''Bonjour, le monde \<newline>''),
        ok_response (lit ''Version 1, not Version 2'')]"
      "lit ''Bonjour, le monde \<newline>''" "[ok_response (lit ''Version 1, not Version 2'')]"
      "lit ''Version 1, not Version 2''" "[]"]
  by (simp add: strip_examples) (simp add: lit_def)

text \<open>
  Claim C5, as the code has it. The client trims the arbitration response before the
  orchestrator sees it. If the response contains neither \<open>Version 1\<close> nor \<open>Version 2\<close>
  and is not empty after trimming, \<open>translate_text\<close> fails with a \<^verbatim>\<open>ValueError\<close>
  whose message is the fixed prefix followed by the trimmed response, so the message
  contains the trimmed response. If it is empty after trimming, \<open>translate_text\<close> fails
  with the \<^verbatim>\<open>RuntimeError\<close> of the empty response.
\<close>

theorem translate_text_malformed_verdict:
  assumes a1: "answers srv (service w) (completion_request w (initial_prompt src sl tg)) t1 s1"
    and n1: "py_strip t1 \<noteq> []"
    and a2: "answers srv s1 (completion_request w (refine_prompt tg (py_strip t1))) t2 s2"
    and n2: "py_strip t2 \<noteq> []"
    and a3: "answers srv s2
               (completion_request w (compare_prompt tg (py_strip t1) (py_strip t2))) t3 s3"
    and v1: "\<not> py_in (lit ''Version 1'') t3"
    and v2: "\<not> py_in (lit ''Version 2'') t3"
  shows "(py_strip t3 \<noteq> [] \<longrightarrow>
            fst (translate_text srv w src sl tg) =
              Inl (ValueError
                (lit ''Unexpected output from API during comparison: '' @ py_strip t3)) \<and>
            py_in (py_strip t3)
              (lit ''Unexpected output from API during comparison: '' @ py_strip t3)) \<and>
         (py_strip t3 = [] \<longrightarrow>
            fst (translate_text srv w src sl tg) =
              Inl (RuntimeError (lit ''API returned an empty response.'') None))"
  using translate_text_run [OF a1 n1 a2 n2 a3] v1 v2
  by (simp add: decide_best_strip py_in_sublist)

theorem translate_text_malformed_verdict_witness:
  "fst (translate_text scripted
          (fresh_world
             [ok_response (lit '' Bonjour le monde''),
              ok_response (lit ''Bonjour, le monde \<newline>''),
              ok_response (lit '' I cannot decide '')] no_files)
          (lit ''Hello world'') (lit ''English'') (lit ''French''))
     = Inl (ValueError (lit ''Unexpected output from API during comparison: I cannot decide'')) \<and>
   fst (translate_text scripted
          (fresh_world
             [ok_response (lit '' Bonjour le monde''),
              ok_response (lit ''Bonjour, le monde \<newline>''),
              ok_response (lit '' \<newline>'')] no_files)
          (lit ''Hello world'') (lit ''English'') (lit ''French''))
     = Inl (RuntimeError (lit ''API returned an empty response.'') None)"
  using translate_text_malformed_verdict [of scripted
      "fresh_world
             [ok_response (lit '' Bonjour le monde''),
              ok_response (lit ''Bonjour, le monde \<newline>''),
              ok_response (lit '' I cannot decide '')] no_files"
      "lit ''Hello world''" "lit ''English''" "lit ''French''" "lit '' Bonjour le monde''"
      "[ok_response (lit ''Bonjour, le monde \<newline>''),
        ok_response (lit '' I cannot decide '')]"
      "lit ''Bonjour, le monde \<newline>''" "[ok_response (lit '' I cannot decide '')]"
      "lit '' I cannot decide ''" "[]"]
    translate_text_malformed_verdict [of scripted
      "fresh_world
             [ok_response (lit '' Bonjour le monde''),
              ok_response (lit ''Bonjour, le monde \<newline>''),
              ok_response (lit '' \<newline>'')] no_files"
      "lit ''Hello world''" "lit ''English''" "lit ''French''" "lit '' Bonjour le monde''"
      "[ok_response (lit ''Bonjour, le monde \<newline>''),
        ok_response (lit '' \<newline>'')]"
      "lit ''Bonjour, le monde \<newline>''" "[ok_response (lit '' \<newline>'')]"
      "lit '' \<newline>''" "[]"]
  by (simp add: strip_examples) (simp add: lit_def)

text \<open>
  Claim C5, as stated, fails on two arbitration responses that contain neither marker.
  On \<open>'' I cannot decide ''\<close>, with a space at each end, the message of the
  \<^verbatim>\<open>ValueError\<close> holds the trimmed text and does not contain the response itself. On
  a response of whitespace only, the failure is the \<^verbatim>\<open>RuntimeError\<close> of the empty
  response, not a \<^verbatim>\<open>ValueError\<close>.
\<close>

theorem translate_text_malformed_verdict_counterexample:
  "\<not> py_in (lit ''Version 1'') (lit '' I cannot decide '') \<and>
   \<not> py_in (lit ''Version 2'') (lit '' I cannot decide '') \<and>
   fst (translate_text scripted
          (fresh_world
             [ok_response (lit '' Bonjour le monde''),
              ok_response (lit ''Bonjour, le monde \<newline>''),
              ok_response (lit '' I cannot decide '')] no_files)
          (lit ''Hello world'') (lit ''English'') (lit ''French''))
     = Inl (ValueError (lit ''Unexpected output from API during comparison: I cannot decide'')) \<and>
   \<not> py_in (lit '' I cannot decide '')
       (lit ''Unexpected output from API during comparison: I cannot decide'') \<and>
   \<not> py_in (lit ''Version 1'') (lit '' \<newline>'') \<and>
   \<not> py_in (lit ''Version 2'') (lit '' \<newline>'') \<and>
   fst (translate_text scripted
          (fresh_world
             [ok_response (lit '' Bonjour le monde''),
              ok_response (lit ''Bonjour, le monde \<newline>''),
              ok_response (lit '' \<newline>'')] no_files)
          (lit ''Hello world'') (lit ''English'') (lit ''French''))
     = Inl (RuntimeError (lit ''API returned an empty response.'') None)"
proof -
  have 1: "\<not> py_in (lit ''Version 1'') (lit '' I cannot decide '')"
    "\<not> py_in (lit ''Version 2'') (lit '' I cannot decide '')"
    "\<not> py_in (lit ''Version 1'') (lit '' \<newline>'')"
    "\<not> py_in (lit ''Version 2'') (lit '' \<newline>'')"
    by (simp_all add: lit_def)
  have 2: "\<not> py_in (lit '' I cannot decide '')
       (lit ''Unexpected output from API during comparison: I cannot decide'')"
    by (simp add: lit_def)
  have 3: "decide_best (lit ''Bonjour le monde'') (lit ''Bonjour, le monde'')
             (lit ''I cannot decide'') =
           Inl (ValueError (lit ''Unexpected output from API during comparison: I cannot decide''))"
    by (simp add: decide_best_def lit_def)
  have 4: "fst (translate_text scripted
          (fresh_world
             [ok_response (lit '' Bonjour le monde''),
              ok_response (lit ''Bonjour, le monde \<newline>''),
              ok_response (lit '' I cannot decide '')] no_files)
          (lit ''Hello world'') (lit ''English'') (lit ''French''))
     = Inl (ValueError (lit ''Unexpected output from API during comparison: I cannot decide''))"
    using scripted_run [of "lit '' Bonjour le monde''" "lit ''Bonjour, le monde \<newline>''"
        "lit '' I cannot decide ''" no_files "lit ''Hello world''" "lit ''English''"
        "lit ''French''"] 3
    by (simp add: strip_examples)
  have 5: "fst (translate_text scripted
          (fresh_world
             [ok_response (lit '' Bonjour le monde''),
              ok_response (lit ''Bonjour, le monde \<newline>''),
              ok_response (lit '' \<newline>'')] no_files)
          (lit ''Hello world'') (lit ''English'') (lit ''French''))
     = Inl (RuntimeError (lit ''API returned an empty response.'') None)"
    using scripted_run [of "lit '' Bonjour le monde''" "lit ''Bonjour, le monde \<newline>''"
        "lit '' \<newline>''" no_files "lit ''Hello world''" "lit ''English''" "lit ''French''"]
    by (simp add: strip_examples)
  from 1 2 4 5 show ?thesis by blast
qed

text \<open>
  Claim C6. \<open>make_api_call\<close> posts one request, whose payload holds the prompt stripped;
  on a well-formed response with a non-empty text it returns that text stripped, and it
  returns nothing else. Stripping a string removes a block of whitespace at each end and
  nothing between: the rest is kept as it is, and is empty or neither starts nor ends with
  whitespace.
\<close>

theorem make_api_call_trims:
  "sent (snd (make_api_call srv w p mt temp mdl)) = sent w @ [make_request w p mt temp mdl] \<and>
   prompt (json_payload (make_request w p mt temp mdl)) = py_strip p \<and>
   (response_text (fst (srv (service w) (make_request w p mt temp mdl))) = Some t \<and>
    py_strip t \<noteq> [] \<longrightarrow>
      fst (make_api_call srv w p mt temp mdl) = Inr (py_strip t)) \<and>
   (fst (make_api_call srv w p mt temp mdl) = Inr v \<longrightarrow>
      (\<exists>t'. response_text (fst (srv (service w) (make_request w p mt temp mdl))) = Some t' \<and>
            v = py_strip t')) \<and>
   (\<forall>s. \<exists>l r. s = l @ py_strip s @ r \<and> list_all isspace l \<and> list_all isspace r \<and>
      (py_strip s = [] \<or> \<not> isspace (hd (py_strip s)) \<and> \<not> isspace (last (py_strip s))))"
proof -
  have 1: "sent (snd (make_api_call srv w p mt temp mdl)) =
             sent w @ [make_request w p mt temp mdl]"
    by (simp add: make_api_call_eq)
  have 2: "prompt (json_payload (make_request w p mt temp mdl)) = py_strip p"
    by (simp add: make_request_def)
  have 3: "fst (make_api_call srv w p mt temp mdl) = Inr (py_strip t)"
    if "response_text (fst (srv (service w) (make_request w p mt temp mdl))) = Some t \<and>
        py_strip t \<noteq> []"
    using that by (simp add: make_api_call_eq read_response_text)
  have 4: "\<exists>t'. response_text (fst (srv (service w) (make_request w p mt temp mdl))) = Some t' \<and>
            v = py_strip t'"
    if "fst (make_api_call srv w p mt temp mdl) = Inr v"
    using that by (auto simp: make_api_call_eq dest: read_response_Inr)
  have 5: "\<exists>l r. s = l @ py_strip s @ r \<and> list_all isspace l \<and> list_all isspace r \<and>
      (py_strip s = [] \<or> \<not> isspace (hd (py_strip s)) \<and> \<not> isspace (last (py_strip s)))" for s
    using py_strip_split [of s] py_strip_hd [of s] py_strip_last [of s] by blast
  from 1 2 3 4 5 show ?thesis by blast
qed

theorem make_api_call_trims_witness:
  "prompt (json_payload (last (sent (snd (make_api_call scripted
      (fresh_world [ok_response (lit '' Salut  toi '')] no_files) (lit ''  Say  hi \<newline>'')
      1000 DEFAULT_TEMPERATURE DEFAULT_MODEL))))) = lit ''Say  hi'' \<and>
   fst (make_api_call scripted
      (fresh_world [ok_response (lit '' Salut  toi '')] no_files) (lit ''  Say  hi \<newline>'')
      1000 DEFAULT_TEMPERATURE DEFAULT_MODEL) = Inr (lit ''Salut  toi'')"
proof -
  note c = make_api_call_trims [of scripted "fresh_world [ok_response (lit '' Salut  toi '')] no_files"
      "lit ''  Say  hi \<newline>''" 1000 DEFAULT_TEMPERATURE DEFAULT_MODEL "lit '' Salut  toi ''"]
  from c [THEN conjunct1] c [THEN conjunct2, THEN conjunct1]
    c [THEN conjunct2, THEN conjunct2, THEN conjunct1]
  show ?thesis by (simp add: strip_examples)
qed

text \<open>
  Claim C7. A string returned by \<open>make_api_call\<close>, and a string returned by
  \<open>translate_text\<close>, is non-empty and neither starts nor ends with whitespace.
\<close>

theorem results_nonempty_trimmed:
  "(fst (make_api_call srv w p mt temp mdl) = Inr v \<longrightarrow>
      v \<noteq> [] \<and> \<not> isspace (hd v) \<and> \<not> isspace (last v)) \<and>
   (fst (translate_text srv w' src sl tg) = Inr v' \<longrightarrow>
      v' \<noteq> [] \<and> \<not> isspace (hd v') \<and> \<not> isspace (last v'))"
proof (intro conjI impI)
  assume "fst (make_api_call srv w p mt temp mdl) = Inr v"
  from make_api_call_clean [OF this]
  show "v \<noteq> []" "\<not> isspace (hd v)" "\<not> isspace (last v)" by simp_all
next
  assume "fst (translate_text srv w' src sl tg) = Inr v'"
  from translate_text_Inr [OF this] obtain w0 p0 w1
    where "make_api_call_default srv w0 p0 = (Inr v', w1)" by blast
  from default_call_clean [OF this]
  show "v' \<noteq> []" "\<not> isspace (hd v')" "\<not> isspace (last v')" by simp_all
qed

theorem results_nonempty_trimmed_witness:
  "fst (make_api_call scripted
      (fresh_world [ok_response (lit '' Salut  toi '')] no_files) (lit ''  Say  hi \<newline>'')
      1000 DEFAULT_TEMPERATURE DEFAULT_MODEL) = Inr (lit ''Salut  toi'') \<and>
   fst (translate_text scripted (fresh_world demo_script demo_files)
          (lit ''Hello world'') (lit ''English'') (lit ''French'')) = Inr (lit ''Bonjour, le monde'') \<and>
   lit ''Salut  toi'' \<noteq> [] \<and> \<not> isspace (hd (lit ''Salut  toi'')) \<and>
   \<not> isspace (last (lit ''Salut  toi'')) \<and>
   lit ''Bonjour, le monde'' \<noteq> [] \<and> \<not> isspace (hd (lit ''Bonjour, le monde'')) \<and>
   \<not> isspace (last (lit ''Bonjour, le monde''))"
proof -
  have m: "fst (make_api_call scripted
      (fresh_world [ok_response (lit '' Salut  toi '')] no_files) (lit ''  Say  hi \<newline>'')
      1000 DEFAULT_TEMPERATURE DEFAULT_MODEL) = Inr (lit ''Salut  toi'')"
    by (simp add: make_api_call_eq read_response_text strip_examples)
  have "translate_text scripted (fresh_world demo_script demo_files)
          (lit ''Hello world'') (lit ''English'') (lit ''French'') =
        (decide_best (py_strip (lit '' Bonjour le monde''))
           (py_strip (lit ''Bonjour, le monde \<newline>'')) (py_strip (lit ''Version 2 is better'')),
         (fresh_world demo_script demo_files)\<lparr>service := [],
            sent := sent (fresh_world demo_script demo_files) @
              [completion_request (fresh_world demo_script demo_files)
                 (initial_prompt (lit ''Hello world'') (lit ''English'') (lit ''French'')),
               completion_request (fresh_world demo_script demo_files)
                 (refine_prompt (lit ''French'') (py_strip (lit '' Bonjour le monde''))),
               completion_request (fresh_world demo_script demo_files)
                 (compare_prompt (lit ''French'') (py_strip (lit '' Bonjour le monde''))
                    (py_strip (lit ''Bonjour, le monde \<newline>'')))]\<rparr>)"
    using translate_text_run [of scripted "fresh_world demo_script demo_files"
        "lit ''Hello world''" "lit ''English''" "lit ''French''" "lit '' Bonjour le monde''"
        "[ok_response (lit ''Bonjour, le monde \<newline>''), ok_response (lit ''Version 2 is better'')]"
        "lit ''Bonjour, le monde \<newline>''" "[ok_response (lit ''Version 2 is better'')]"
        "lit ''Version 2 is better''" "[]"]
    by (simp add: strip_examples demo_script_def)
  moreover have "decide_best (py_strip (lit '' Bonjour le monde''))
           (py_strip (lit ''Bonjour, le monde \<newline>'')) (py_strip (lit ''Version 2 is better''))
        = Inr (lit ''Bonjour, le monde'')"
    by (simp add: decide_best_def strip_examples) (simp add: lit_def)
  ultimately have t: "fst (translate_text scripted (fresh_world demo_script demo_files)
          (lit ''Hello world'') (lit ''English'') (lit ''French'')) = Inr (lit ''Bonjour, le monde'')"
    by simp
  from m t results_nonempty_trimmed [of scripted "fresh_world [ok_response (lit '' Salut  toi '')] no_files"
      "lit ''  Say  hi \<newline>''" 1000 DEFAULT_TEMPERATURE DEFAULT_MODEL "lit ''Salut  toi''"
      "fresh_world demo_script demo_files" "lit ''Hello world''" "lit ''English''" "lit ''French''"
      "lit ''Bonjour, le monde''"]
  show ?thesis by blast
qed




text \<open>
  Claim C9, as the code has it. When the input cannot be read, \<open>main\<close> exits with
  status 1, prints one diagnostic and sends no request. The diagnostic is the one for a
  file that was not found exactly when opening the input raises
  \<^verbatim>\<open>FileNotFoundError\<close>; any other exception of opening or reading the input gets
  another diagnostic.
\<close>

theorem main_input_not_found:
  assumes "read_text (files w (infile a)) = Inl e"
  shows "main srv a w = (1, w\<lparr>stdout := stdout w @ [report e]\<rparr>) \<and>
         sent (snd (main srv a w)) = sent w \<and>
         (report e = Diagnostic (lit ''Error: File not found - '') e \<longleftrightarrow> e = FileNotFoundError)"
proof -
  have m: "main srv a w = (1, w\<lparr>stdout := stdout w @ [report e]\<rparr>)"
    using assms by (simp add: main_def handle_def)
  have "report e = Diagnostic (lit ''Error: File not found - '') e \<longleftrightarrow> e = FileNotFoundError"
    by (cases e) (simp_all add: lit_def)
  with m show ?thesis by simp
qed

theorem main_input_not_found_witness:
  "main scripted demo_args (fresh_world demo_script no_files) =
     (1, (fresh_world demo_script no_files)
           \<lparr>stdout := [Diagnostic (lit ''Error: File not found - '') FileNotFoundError]\<rparr>) \<and>
   main scripted demo_args (fresh_world demo_script blocked_files) =
     (1, (fresh_world demo_script blocked_files)
           \<lparr>stdout := [Diagnostic (lit ''Unexpected error: '') NotADirectoryError]\<rparr>)"
  using main_input_not_found [of "fresh_world demo_script no_files" demo_args
      FileNotFoundError scripted]
    main_input_not_found [of "fresh_world demo_script blocked_files" demo_args
      NotADirectoryError scripted]
  by (simp add: no_files_def blocked_files_def demo_args_def fresh_world_def)

text \<open>
  Claim C9, as stated, fails on an input file without read permission: the path does not
  resolve to a readable file, and the diagnostic is the generic one.
\<close>

theorem main_unreadable_input_generic_diagnostic:
  "read_text (locked_files (infile demo_args)) = Inl PermissionError \<and>
   stdout (snd (main scripted demo_args (fresh_world demo_script locked_files))) =
     [Diagnostic (lit ''Unexpected error: '') PermissionError] \<and>
   stdout (snd (main scripted demo_args (fresh_world demo_script locked_files))) \<noteq>
     [Diagnostic (lit ''Error: File not found - '') PermissionError]"
  by (simp add: main_def handle_def fresh_world_def locked_files_def demo_args_def lit_def)

text \<open>
  Claim C10. With a service without state, whose outcome is a fixed function of the prompt,
  the result of \<open>translate_text\<close> (the text returned or the exception raised) is the same
  in any two worlds: it depends on the three arguments and on that function only.
\<close>

theorem translate_text_deterministic:
  "fst (translate_text (stateless f) w1 src sl tg) = fst (translate_text (stateless f) w2 src sl tg)"
  by (simp only: translate_text_stateless)

end
